theory Spec2Isabelle
  imports Main "HOL-Library.Word" "HOL-Library.Code_Target_Nat"
begin

section \<open>The collaborators of the dumper: database and sink\<close>

text \<open>
  The dumper of \<^verbatim>\<open>dumper/mysql.go\<close> talks to two collaborators: a database handle
  (\<^verbatim>\<open>*sql.DB\<close>) on which it runs SQL text, and an \<^verbatim>\<open>io.Writer\<close> that receives the
  script. Both are modelled by one trace of events, in the order in which the code
  performs them: \<open>Write s\<close> is one call of the writer with the bytes \<open>s\<close> (each
  \<^verbatim>\<open>fmt.Fprintf\<close> is one such call), \<open>Stmt q\<close> is one statement sent to the database.
  The code drops the result of every \<^verbatim>\<open>Fprintf\<close>, so a write has no outcome here.
\<close>

datatype event = Write string | Stmt string

type_synonym trace = "event list"

fun issued :: "trace \<Rightarrow> string list" where
  "issued [] = []"
| "issued (Write s # tr) = issued tr"
| "issued (Stmt q # tr) = q # issued tr"

fun writes :: "trace \<Rightarrow> string list" where
  "writes [] = []"
| "writes (Write s # tr) = s # writes tr"
| "writes (Stmt q # tr) = writes tr"

definition sink :: "trace \<Rightarrow> string" where
  "sink tr = concat (writes tr)"

text \<open>
  Errors are values. \<open>DriverError\<close> is whatever the driver reports for a statement or
  while it fetches rows; the other three are the errors that \<^verbatim>\<open>database/sql\<close> raises
  itself: no row for \<^verbatim>\<open>QueryRow\<close>, a destination count that differs from the column
  count, a NULL or an unparsable value for a destination that cannot hold it.
\<close>

datatype error = DriverError string | ErrNoRows | ErrArity | ErrConvert

text \<open>
  A cell is NULL or a byte string. A row set has the outcome of \<^verbatim>\<open>rows.Columns()\<close>, the
  rows that \<^verbatim>\<open>rows.Next()\<close> delivers before it returns false, in order, and what
  \<^verbatim>\<open>rows.Err()\<close> reports after that: nothing when the rows were exhausted, the error of
  the driver when it failed while fetching. A failure of the driver on a row is thus a
  cursor that ends early. The database answers a statement from the statements it has
  received before, so it may change between two statements.
\<close>

type_synonym cell = "string option"

record rowset =
  Columns :: "error + string list"
  cursor :: "cell list list"
  Err :: "error option"

text \<open>
  What a \<^verbatim>\<open>Scan\<close> works on: the cells of the current row, or, for the row handle of
  \<^verbatim>\<open>QueryRow\<close>, the error that the handle keeps for its \<^verbatim>\<open>Scan\<close>.
\<close>

type_synonym row = "error + cell list"

type_synonym reply = "error + rowset"

type_synonym database = "string list \<Rightarrow> string \<Rightarrow> reply"

record Client =
  DB :: database
  SelectMap :: "string \<rightharpoonup> (string \<rightharpoonup> string)"
  WhereMap :: "string \<rightharpoonup> string"
  FilterMap :: "string \<rightharpoonup> string"
  UseTableLock :: bool
  ExtendedInsertRows :: int

definition OperationIgnore :: string where
  "OperationIgnore = ''ignore''"

definition OperationNoData :: string where
  "OperationNoData = ''nodata''"

definition DefaultExtendedInsertRows :: int where
  "DefaultExtendedInsertRows = 100"

definition NewMySQLDumper :: "database \<Rightarrow> Client" where
  "NewMySQLDumper db =
     \<lparr>DB = db, SelectMap = Map.empty, WhereMap = Map.empty, FilterMap = Map.empty,
      UseTableLock = False, ExtendedInsertRows = DefaultExtendedInsertRows\<rparr>"

text \<open>Reading a Go map of strings at a missing key gives the empty string.\<close>

definition index :: "(string \<rightharpoonup> string) \<Rightarrow> string \<Rightarrow> string" where
  "index m k = (case m k of None \<Rightarrow> [] | Some v \<Rightarrow> v)"

text \<open>Reading a nested map at a missing outer key reads a nil map: not found.\<close>

definition index2 :: "(string \<rightharpoonup> (string \<rightharpoonup> string)) \<Rightarrow> string \<Rightarrow> string \<Rightarrow> string option" where
  "index2 m k1 k2 = (case m k1 of None \<Rightarrow> None | Some inner \<Rightarrow> inner k2)"

subsection \<open>The operations of the database handle\<close>

definition Fprintf :: "string \<Rightarrow> trace \<Rightarrow> trace" where
  "Fprintf s tr = tr @ [Write s]"

definition Query :: "Client \<Rightarrow> string \<Rightarrow> trace \<Rightarrow> reply \<times> trace" where
  "Query d q tr = (DB d (issued tr) q, tr @ [Stmt q])"

definition Exec :: "Client \<Rightarrow> string \<Rightarrow> trace \<Rightarrow> error option \<times> trace" where
  "Exec d q tr =
     ((case DB d (issued tr) q of Inl err \<Rightarrow> Some err | Inr _ \<Rightarrow> None), tr @ [Stmt q])"

text \<open>
  \<^verbatim>\<open>QueryRow\<close> keeps the error of the statement for the later \<^verbatim>\<open>Scan\<close>, which reads the
  first row; when no row is delivered it reports the error of \<^verbatim>\<open>rows.Err()\<close>, or
  \<^verbatim>\<open>ErrNoRows\<close> when there is none. Closing the rows afterwards is taken to succeed.
\<close>

definition QueryRow :: "Client \<Rightarrow> string \<Rightarrow> trace \<Rightarrow> row \<times> trace" where
  "QueryRow d q tr =
     (case Query d q tr of
        (Inl err, tr1) \<Rightarrow> (Inl err, tr1)
      | (Inr rows, tr1) \<Rightarrow>
          (case cursor rows of
             [] \<Rightarrow> (case Err rows of
                      Some err \<Rightarrow> (Inl err, tr1)
                    | None \<Rightarrow> (Inl ErrNoRows, tr1))
           | r # _ \<Rightarrow> (Inr r, tr1)))"

text \<open>\<^verbatim>\<open>Scan\<close> into two strings: two cells, neither NULL.\<close>

fun Scan_string2 :: "row \<Rightarrow> error + (string \<times> string)" where
  "Scan_string2 (Inl err) = Inl err"
| "Scan_string2 (Inr [Some a, Some b]) = Inr (a, b)"
| "Scan_string2 (Inr [_, _]) = Inl ErrConvert"
| "Scan_string2 (Inr _) = Inl ErrArity"

text \<open>
  \<^verbatim>\<open>Scan\<close> into a \<^verbatim>\<open>uint64\<close> goes through \<^verbatim>\<open>strconv.ParseUint(s, 10, 64)\<close>: decimal
  digits only, at least one, and a value below \<open>2 ^ 64\<close>.
\<close>

definition digit_of :: "char \<Rightarrow> nat option" where
  "digit_of c = map_of (zip ''0123456789'' [0, 1, 2, 3, 4, 5, 6, 7, 8, 9]) c"

fun ParseUint_digits :: "string \<Rightarrow> nat \<Rightarrow> nat option" where
  "ParseUint_digits [] n = Some n"
| "ParseUint_digits (c # cs) n =
     (case digit_of c of None \<Rightarrow> None | Some v \<Rightarrow> ParseUint_digits cs (n * 10 + v))"

definition ParseUint :: "string \<Rightarrow> nat option" where
  "ParseUint s =
     (if s = [] then None
      else (case ParseUint_digits s 0 of
              None \<Rightarrow> None
            | Some n \<Rightarrow> if n < 2 ^ 64 then Some n else None))"

fun Scan_uint64 :: "row \<Rightarrow> error + 64 word" where
  "Scan_uint64 (Inl err) = Inl err"
| "Scan_uint64 (Inr [Some s]) =
     (case ParseUint s of None \<Rightarrow> Inl ErrConvert | Some n \<Rightarrow> Inr (of_nat n))"
| "Scan_uint64 (Inr [None]) = Inl ErrConvert"
| "Scan_uint64 (Inr _) = Inl ErrArity"

text \<open>
  \<^verbatim>\<open>Scan\<close> of a delivered row into \<open>n\<close> destinations of type \<^verbatim>\<open>*sql.RawBytes\<close>: any
  cell fits, a NULL leaves the destination nil; only the count of destinations is checked.
\<close>

definition Scan_raw :: "nat \<Rightarrow> cell list \<Rightarrow> error + cell list" where
  "Scan_raw n cells = (if length cells = n then Inr cells else Inl ErrArity)"

subsection \<open>Formatting\<close>

definition quote :: char where
  "quote = CHR 0x27"

definition backslash :: char where
  "backslash = CHR 0x5C"

fun Join :: "string list \<Rightarrow> string \<Rightarrow> string" where
  "Join [] sep = []"
| "Join [x] sep = x"
| "Join (x # y # ys) sep = x @ sep @ Join (y # ys) sep"

text \<open>The verb \<^verbatim>\<open>%d\<close> of an unsigned integer.\<close>

fun decimal :: "nat \<Rightarrow> string" where
  "decimal n =
     (if n < 10 then [''0123456789'' ! n]
      else decimal (n div 10) @ [''0123456789'' ! (n mod 10)])"

declare decimal.simps [simp del]

section \<open>The dumper\<close>

text \<open>
  \<^verbatim>\<open>strings.ToLower\<close> is a function of the Go library and \<^verbatim>\<open>escape\<close> is a function of
  the package whose file is not part of the sources at hand: the operations take them as
  the parameters \<open>lower\<close> and \<open>esc\<close>.
\<close>

definition LockTableReading :: "Client \<Rightarrow> string \<Rightarrow> trace \<Rightarrow> error option \<times> trace" where
  "LockTableReading d table tr = Exec d (''LOCK TABLES `'' @ table @ ''` READ'') tr"

definition FlushTable :: "Client \<Rightarrow> string \<Rightarrow> trace \<Rightarrow> error option \<times> trace" where
  "FlushTable d table tr = Exec d (''FLUSH TABLES `'' @ table @ ''`'') tr"

definition UnlockTables :: "Client \<Rightarrow> trace \<Rightarrow> error option \<times> trace" where
  "UnlockTables d tr = Exec d ''UNLOCK TABLES'' tr"

text \<open>
  \<^verbatim>\<open>GetTables\<close> returns its list together with the error, as the Go function does. The
  loop runs over the delivered rows and ends when \<^verbatim>\<open>rows.Next()\<close> returns false; the code
  does not read \<^verbatim>\<open>rows.Err()\<close>.
\<close>

fun GetTables_rows :: "cell list list \<Rightarrow> string list \<Rightarrow> string list \<times> error option" where
  "GetTables_rows [] tables = (tables, None)"
| "GetTables_rows (r # rs) tables =
     (case Scan_string2 (Inr r) of
        Inl err \<Rightarrow> (tables, Some err)
      | Inr (tableName, tableType) \<Rightarrow>
          if tableType = ''BASE TABLE'' then GetTables_rows rs (tables @ [tableName])
          else GetTables_rows rs tables)"

definition GetTables :: "Client \<Rightarrow> trace \<Rightarrow> (string list \<times> error option) \<times> trace" where
  "GetTables d tr =
     (case Query d ''SHOW FULL TABLES'' tr of
        (Inl err, tr1) \<Rightarrow> (([], Some err), tr1)
      | (Inr rows, tr1) \<Rightarrow> (GetTables_rows (cursor rows) [], tr1))"

definition WriteCreateTable :: "Client \<Rightarrow> string \<Rightarrow> trace \<Rightarrow> error option \<times> trace" where
  "WriteCreateTable d table tr =
     (let tr1 = Fprintf (''\<newline>--\<newline>-- Structure for table `'' @ table @ ''`\<newline>--\<newline>\<newline>'') tr;
          tr2 = Fprintf (''DROP TABLE IF EXISTS `'' @ table @ ''`;\<newline>'') tr1;
          (row, tr3) = QueryRow d (''SHOW CREATE TABLE `'' @ table @ ''`'') tr2
      in case Scan_string2 row of
           Inl err \<Rightarrow> (Some err, tr3)
         | Inr (name, ddl) \<Rightarrow> (None, Fprintf (ddl @ '';\<newline>'') tr3))"

text \<open>The body of the loop over the columns of \<^verbatim>\<open>GetColumnsForSelect\<close>.\<close>

definition select_column :: "(string \<Rightarrow> string) \<Rightarrow> Client \<Rightarrow> string \<Rightarrow> string \<Rightarrow> string" where
  "select_column lower d table column =
     (case index2 (SelectMap d) (lower table) (lower column) of
        Some replacement \<Rightarrow> replacement @ '' AS `'' @ column @ ''`''
      | None \<Rightarrow> ''`'' @ column @ ''`'')"

text \<open>
  The loop replaces every entry of the column slice, from the first to the last, by the
  text built from that entry.
\<close>

fun GetColumnsForSelect_range ::
  "(string \<Rightarrow> string) \<Rightarrow> Client \<Rightarrow> string \<Rightarrow> string list \<Rightarrow> string list" where
  "GetColumnsForSelect_range lower d table [] = []"
| "GetColumnsForSelect_range lower d table (column # columns) =
     select_column lower d table column # GetColumnsForSelect_range lower d table columns"

definition GetColumnsForSelect ::
  "(string \<Rightarrow> string) \<Rightarrow> Client \<Rightarrow> string \<Rightarrow> trace \<Rightarrow> (error + string list) \<times> trace" where
  "GetColumnsForSelect lower d table tr =
     (case Query d (''SELECT * FROM `'' @ table @ ''` LIMIT 1'') tr of
        (Inl err, tr1) \<Rightarrow> (Inl err, tr1)
      | (Inr rows, tr1) \<Rightarrow>
          (case Columns rows of
             Inl err \<Rightarrow> (Inl err, tr1)
           | Inr cols \<Rightarrow> (Inr (GetColumnsForSelect_range lower d table cols), tr1)))"

definition GetSelectQueryForTable ::
  "(string \<Rightarrow> string) \<Rightarrow> Client \<Rightarrow> string \<Rightarrow> trace \<Rightarrow> (error + string) \<times> trace" where
  "GetSelectQueryForTable lower d table tr =
     (case GetColumnsForSelect lower d table tr of
        (Inl err, tr1) \<Rightarrow> (Inl err, tr1)
      | (Inr cols, tr1) \<Rightarrow>
          (let query = ''SELECT '' @ Join cols '', '' @ '' FROM `'' @ table @ ''`''
           in case WhereMap d (lower table) of
                Some where_expr \<Rightarrow> (Inr (query @ '' WHERE '' @ where_expr), tr1)
              | None \<Rightarrow> (Inr query, tr1)))"

text \<open>The count stays zero when the scan fails, and comes back with the error.\<close>

definition GetRowCountForTable ::
  "(string \<Rightarrow> string) \<Rightarrow> Client \<Rightarrow> string \<Rightarrow> trace \<Rightarrow> (64 word \<times> error option) \<times> trace" where
  "GetRowCountForTable lower d table tr =
     (let query0 = ''SELECT COUNT(*) FROM `'' @ table @ ''`'';
          query = (case WhereMap d (lower table) of
                     Some where_expr \<Rightarrow> query0 @ '' WHERE '' @ where_expr
                   | None \<Rightarrow> query0);
          (row, tr1) = QueryRow d query tr
      in case Scan_uint64 row of
           Inl err \<Rightarrow> ((0, Some err), tr1)
         | Inr count \<Rightarrow> ((count, None), tr1))"

definition WriteTableLockWrite :: "string \<Rightarrow> trace \<Rightarrow> trace" where
  "WriteTableLockWrite table tr = Fprintf (''LOCK TABLES `'' @ table @ ''` WRITE;\<newline>'') tr"

definition WriteUnlockTables :: "trace \<Rightarrow> trace" where
  "WriteUnlockTables tr = Fprintf ''UNLOCK TABLES;\<newline>'' tr"

definition selectAllDataFor ::
  "(string \<Rightarrow> string) \<Rightarrow> Client \<Rightarrow> string \<Rightarrow> trace \<Rightarrow> (error + (cell list list \<times> string list)) \<times> trace" where
  "selectAllDataFor lower d table tr =
     (case GetSelectQueryForTable lower d table tr of
        (Inl err, tr1) \<Rightarrow> (Inl err, tr1)
      | (Inr query, tr1) \<Rightarrow>
          (case Query d query tr1 of
             (Inl err, tr2) \<Rightarrow> (Inl err, tr2)
           | (Inr rows, tr2) \<Rightarrow>
               (case Columns rows of
                  Inl err \<Rightarrow> (Inl err, tr2)
                | Inr cols \<Rightarrow> (Inr (cursor rows, cols), tr2))))"

definition WriteTableHeader ::
  "(string \<Rightarrow> string) \<Rightarrow> Client \<Rightarrow> string \<Rightarrow> trace \<Rightarrow> (64 word \<times> error option) \<times> trace" where
  "WriteTableHeader lower d table tr =
     (let tr1 = Fprintf (''\<newline>--\<newline>-- Data for table `'' @ table @ ''`'') tr
      in case GetRowCountForTable lower d table tr1 of
           ((count, Some err), tr2) \<Rightarrow> ((0, Some err), tr2)
         | ((count, None), tr2) \<Rightarrow>
             ((count, None),
              Fprintf ('' -- '' @ decimal (unat count) @ '' rows\<newline>--\<newline>\<newline>'') tr2))"

text \<open>The inner loop of \<^verbatim>\<open>WriteTableData\<close>, over the scanned cells of one row.\<close>

fun WriteTableData_cells :: "(string \<Rightarrow> string) \<Rightarrow> cell list \<Rightarrow> string list \<Rightarrow> string list" where
  "WriteTableData_cells esc [] vals = vals"
| "WriteTableData_cells esc (col # cols) vals =
     (let val = (case col of None \<Rightarrow> ''NULL'' | Some bytes \<Rightarrow> [quote] @ esc bytes @ [quote])
      in WriteTableData_cells esc cols (vals @ [val]))"

text \<open>The text that the outer loop appends to \<open>data\<close> for one scanned row.\<close>

definition WriteTableData_tuple :: "(string \<Rightarrow> string) \<Rightarrow> cell list \<Rightarrow> string" where
  "WriteTableData_tuple esc vs = ''( '' @ Join (WriteTableData_cells esc vs []) '', '' @ '' )''"

text \<open>
  Both writes of \<^verbatim>\<open>WriteTableData\<close> use the format \<^verbatim>\<open>"%s\n%s;\n"\<close> on the query and
  the joined accumulator.
\<close>

definition insert_statement :: "string \<Rightarrow> string list \<Rightarrow> string" where
  "insert_statement query data = query @ ''\<newline>'' @ Join data '',\<newline>'' @ '';\<newline>''"

text \<open>
  The outer loop, over the delivered rows, with the accumulator \<open>data\<close>. It returns the
  accumulator that the code flushes after the loop; the code does not read
  \<^verbatim>\<open>rows.Err()\<close> here either.
\<close>

fun WriteTableData_rows ::
  "(string \<Rightarrow> string) \<Rightarrow> Client \<Rightarrow> string \<Rightarrow> nat \<Rightarrow> cell list list \<Rightarrow> string list \<Rightarrow> trace
     \<Rightarrow> (error + string list) \<times> trace" where
  "WriteTableData_rows esc d query n [] data tr = (Inr data, tr)"
| "WriteTableData_rows esc d query n (r # rs) data tr =
     (case Scan_raw n r of
        Inl err \<Rightarrow> (Inl err, tr)
      | Inr vs \<Rightarrow>
          (let data1 = data @ [WriteTableData_tuple esc vs]
           in if ExtendedInsertRows d = 0 then WriteTableData_rows esc d query n rs data1 tr
              else if int (length data1) \<ge> ExtendedInsertRows d
              then WriteTableData_rows esc d query n rs []
                     (Fprintf (insert_statement query data1) tr)
              else WriteTableData_rows esc d query n rs data1 tr))"

definition WriteTableData ::
  "(string \<Rightarrow> string) \<Rightarrow> (string \<Rightarrow> string) \<Rightarrow> Client \<Rightarrow> string \<Rightarrow> trace \<Rightarrow> error option \<times> trace" where
  "WriteTableData lower esc d table tr =
     (case selectAllDataFor lower d table tr of
        (Inl err, tr1) \<Rightarrow> (Some err, tr1)
      | (Inr (rows, cols), tr1) \<Rightarrow>
          (let query = ''INSERT INTO `'' @ table @ ''` VALUES''
           in case WriteTableData_rows esc d query (length cols) rows [] tr1 of
                (Inl err, tr2) \<Rightarrow> (Some err, tr2)
              | (Inr data, tr2) \<Rightarrow>
                  if length data > 0 then (None, Fprintf (insert_statement query data) tr2)
                  else (None, tr2)))"

text \<open>
  \<^verbatim>\<open>WriteTable\<close> drops the results of the lock, the flush, \<^verbatim>\<open>WriteCreateTable\<close>,
  \<^verbatim>\<open>WriteTableData\<close> and the unlock: only their effect on the trace remains.
\<close>

definition WriteTable ::
  "(string \<Rightarrow> string) \<Rightarrow> (string \<Rightarrow> string) \<Rightarrow> Client \<Rightarrow> string \<Rightarrow> trace \<Rightarrow> error option \<times> trace" where
  "WriteTable lower esc d table tr =
     (if index (FilterMap d) (lower table) = OperationIgnore then (None, tr)
      else
        (let skipData = (index (FilterMap d) (lower table) = OperationNoData);
             tr1 = (if \<not> skipData \<and> UseTableLock d
                    then snd (FlushTable d table (snd (LockTableReading d table tr)))
                    else tr);
             tr2 = snd (WriteCreateTable d table tr1)
         in if \<not> skipData
            then (case WriteTableHeader lower d table tr2 of
                    ((cnt, Some err), tr3) \<Rightarrow> (Some err, tr3)
                  | ((cnt, None), tr3) \<Rightarrow>
                      if cnt > 0
                      then (let tr4 = WriteTableLockWrite table tr3;
                                tr5 = snd (WriteTableData lower esc d table tr4);
                                tr6 = Fprintf ''\<newline>'' tr5;
                                tr7 = WriteUnlockTables tr6;
                                tr8 = (if UseTableLock d then snd (UnlockTables d tr7) else tr7)
                            in (None, tr8))
                      else (None, tr3))
            else (None, tr2)))"

fun WriteTables_range ::
  "(string \<Rightarrow> string) \<Rightarrow> (string \<Rightarrow> string) \<Rightarrow> Client \<Rightarrow> string list \<Rightarrow> trace \<Rightarrow> error option \<times> trace" where
  "WriteTables_range lower esc d [] tr = (None, tr)"
| "WriteTables_range lower esc d (table # tables) tr =
     (case WriteTable lower esc d table tr of
        (Some err, tr1) \<Rightarrow> (Some err, tr1)
      | (None, tr1) \<Rightarrow> WriteTables_range lower esc d tables tr1)"

definition WriteTables ::
  "(string \<Rightarrow> string) \<Rightarrow> (string \<Rightarrow> string) \<Rightarrow> Client \<Rightarrow> trace \<Rightarrow> error option \<times> trace" where
  "WriteTables lower esc d tr =
     (case GetTables d tr of
        ((tables, Some err), tr1) \<Rightarrow> (Some err, tr1)
      | ((tables, None), tr1) \<Rightarrow> WriteTables_range lower esc d tables tr1)"

section \<open>Reference definitions\<close>

text \<open>
  Modelled from the spec: the function \<^verbatim>\<open>escape\<close> of package \<^verbatim>\<open>dumper\<close>, which
  \<^verbatim>\<open>WriteTableData\<close> calls and whose source file is missing. The spec's escaping rule:
  every single-quote, backslash, NUL byte, newline, carriage return and Ctrl-Z (0x1A)
  is replaced with its backslash-escaped form. The table pairs each of the six bytes with
  the character that follows the backslash in the string literals of the target dialect;
  every other byte stays as it is.
\<close>

definition escape_table :: "(char \<times> char) list" where
  "escape_table =
     [(quote, quote), (backslash, backslash), (CHR 0x00, CHR ''0''),
      (CHR ''\<newline>'', CHR ''n''), (CHR 0x0D, CHR ''r''), (CHR 0x1A, CHR ''Z'')]"

definition escape_byte :: "char \<Rightarrow> string" where
  "escape_byte c = (case map_of escape_table c of None \<Rightarrow> [c] | Some e \<Rightarrow> [backslash, e])"

definition escape :: "string \<Rightarrow> string" where
  "escape s = concat (map escape_byte s)"

text \<open>
  The spec's "comma-separated": the first text, then every further text with the
  separator before it.
\<close>

fun separated :: "string \<Rightarrow> string list \<Rightarrow> string" where
  "separated sep [] = []"
| "separated sep (x # xs) = x @ concat (map (\<lambda>y. sep @ y) xs)"

text \<open>
  The spec's batching rule as a function of the whole list of tuples: cut it into
  batches of \<open>n\<close>, the last one shorter when the list does not divide; one batch for
  everything when \<open>n\<close> is zero; no batch for no tuple.
\<close>

function batches :: "nat \<Rightarrow> 'a list \<Rightarrow> 'a list list" where
  "batches n xs =
     (if xs = [] then []
      else if n = 0 \<or> length xs \<le> n then [xs]
      else take n xs # batches n (drop n xs))"
  by pat_completeness auto
termination
  by (relation "measure (\<lambda>(n, xs). length xs)") auto

declare batches.simps [simp del]

text \<open>
  \<^verbatim>\<open>strings.ToLower\<close> on ASCII text, the instance of \<open>lower\<close> that the examples use.
\<close>

definition ascii_lower :: "string \<Rightarrow> string" where
  "ascii_lower s =
     map (\<lambda>c. case map_of (zip ''ABCDEFGHIJKLMNOPQRSTUVWXYZ'' ''abcdefghijklmnopqrstuvwxyz'') c of
                None \<Rightarrow> c
              | Some l \<Rightarrow> l) s"

section \<open>Example databases\<close>

text \<open>
  A database with one base table \<^verbatim>\<open>Users\<close> of three rows and one view. It answers the
  statements below the same way whatever it has received before, and rejects every
  other statement, the lock statements among them.
\<close>

definition table_rows :: "string list \<Rightarrow> cell list list \<Rightarrow> reply" where
  "table_rows cols rs = Inr \<lparr>Columns = Inr cols, cursor = rs, Err = None\<rparr>"

definition Users_ddl :: string where
  "Users_ddl = ''CREATE TABLE `Users` (`id` int, `Email` text)''"

definition Users_rows :: "cell list list" where
  "Users_rows =
     [Some ''1'', Some ''a@x.org''] #
     [Some ''2'', None] #
     [Some ''3'', Some (''o'' @ [quote] @ ''k'')] # []"

definition shop_db :: database where
  "shop_db hist q =
     (if q = ''SHOW FULL TABLES''
      then table_rows [''Tables_in_shop'', ''Table_type'']
             ([Some ''Users'', Some ''BASE TABLE''] # [Some ''Active'', Some ''VIEW''] # [])
      else if q = ''SHOW CREATE TABLE `Users`''
      then table_rows [''Table'', ''Create Table''] ([Some ''Users'', Some Users_ddl] # [])
      else if q = ''SELECT * FROM `Users` LIMIT 1''
      then table_rows [''id'', ''Email''] (take 1 Users_rows)
      else if q = ''SELECT COUNT(*) FROM `Users`''
      then table_rows [''COUNT(*)''] ([Some ''3''] # [])
      else if q = ''SELECT COUNT(*) FROM `Users` WHERE id > 100''
      then table_rows [''COUNT(*)''] ([Some ''0''] # [])
      else if q = ''SELECT `id`, `Email` FROM `Users`''
      then table_rows [''id'', ''Email''] Users_rows
      else Inl (DriverError ''rejected''))"

text \<open>The same database when the statement that fetches the DDL fails.\<close>

definition no_ddl_db :: database where
  "no_ddl_db hist q =
     (if q = ''SHOW CREATE TABLE `Users`'' then Inl (DriverError ''gone away'')
      else shop_db hist q)"

text \<open>The same database when the statement that reads the rows fails.\<close>

definition no_data_db :: database where
  "no_data_db hist q =
     (if q = ''SELECT `id`, `Email` FROM `Users`'' then Inl (DriverError ''gone away'')
      else shop_db hist q)"

text \<open>
  A database whose table list has a second row with a NULL type, which does not scan
  into a string.
\<close>

definition bad_tables_db :: database where
  "bad_tables_db hist q =
     (if q = ''SHOW FULL TABLES''
      then table_rows [''Tables_in_shop'', ''Table_type'']
             ([Some ''Users'', Some ''BASE TABLE''] # [Some ''Orders'', None] # [])
      else shop_db hist q)"

definition shop_client :: Client where
  "shop_client = (NewMySQLDumper shop_db)\<lparr>ExtendedInsertRows := 2\<rparr>"

section \<open>Auxiliary facts\<close>

lemma issued_append [simp]: "issued (tr @ tr') = issued tr @ issued tr'"
  by (induction tr rule: issued.induct) simp_all

lemma writes_append [simp]: "writes (tr @ tr') = writes tr @ writes tr'"
  by (induction tr rule: writes.induct) simp_all

text \<open>
  The unfolding rules that evaluate the dumper on the example databases.
\<close>

lemmas db_defs =
  shop_db_def table_rows_def shop_client_def NewMySQLDumper_def DefaultExtendedInsertRows_def
  Users_ddl_def Users_rows_def

lemmas handle_defs =
  Query_def Exec_def QueryRow_def Fprintf_def Scan_raw_def ParseUint_def digit_of_def

lemmas dumper_defs =
  LockTableReading_def FlushTable_def UnlockTables_def GetTables_def WriteCreateTable_def
  select_column_def GetColumnsForSelect_def GetSelectQueryForTable_def
  GetRowCountForTable_def WriteTableLockWrite_def WriteUnlockTables_def
  selectAllDataFor_def WriteTableHeader_def WriteTableData_tuple_def insert_statement_def
  WriteTableData_def WriteTable_def WriteTables_def index_def index2_def
  OperationIgnore_def OperationNoData_def

subsection \<open>Batches\<close>

lemma batches_Nil: "batches n [] = []"
  by (subst batches.simps) simp

lemma batches_short: "xs \<noteq> [] \<Longrightarrow> n = 0 \<or> length xs \<le> n \<Longrightarrow> batches n xs = [xs]"
  by (subst batches.simps) simp

lemma batches_le:
  "n = 0 \<or> length xs \<le> n \<Longrightarrow> batches n xs = (if xs = [] then [] else [xs])"
  by (subst batches.simps) simp

lemma batches_long:
  "0 < n \<Longrightarrow> n < length xs \<Longrightarrow> batches n xs = take n xs # batches n (drop n xs)"
  by (subst batches.simps) auto

lemma batches_append_full:
  assumes "0 < n" and "length ys = n"
  shows "batches n (ys @ zs) = ys # batches n zs"
proof (cases "zs = []")
  case True
  with assms show ?thesis by (auto simp: batches_Nil batches_short)
next
  case False
  with assms show ?thesis by (simp add: batches_long)
qed

lemma concat_batches: "concat (batches n xs) = xs"
proof (induction n xs rule: batches.induct)
  case (1 n xs)
  show ?case
  proof (cases "xs = [] \<or> n = 0 \<or> length xs \<le> n")
    case True
    then have "batches n xs = (if xs = [] then [] else [xs])"
      by (auto simp: batches_Nil batches_le)
    then show ?thesis by simp
  next
    case False
    with 1 show ?thesis by (simp add: batches_long)
  qed
qed

lemma length_batches:
  "0 < n \<Longrightarrow> length (batches n xs) = (length xs + n - 1) div n"
proof (induction n xs rule: batches.induct)
  case (1 n xs)
  show ?case
  proof (cases "xs = []")
    case True
    with 1(2) show ?thesis by (simp add: batches_Nil)
  next
    case nonempty: False
    show ?thesis
    proof (cases "length xs \<le> n")
      case True
      from nonempty obtain m where m: "length xs = Suc m"
        by (cases xs) auto
      with True have "(Suc m + n - 1) div n = 1"
        by (intro div_nat_eqI) auto
      with m have one: "(length xs + n - 1) div n = 1" by simp
      from nonempty True have "batches n xs = [xs]" by (simp add: batches_short)
      with one show ?thesis by simp
    next
      case False
      with 1(2) have long: "batches n xs = take n xs # batches n (drop n xs)"
        by (simp add: batches_long)
      from False nonempty 1(2) have "length (batches n (drop n xs)) = (length (drop n xs) + n - 1) div n"
        by (intro 1(1)) auto
      then have ih: "length (batches n (drop n xs)) = (length xs - 1) div n"
        using False by simp
      from False have e: "length xs + n - 1 = (length xs - 1) + n" by simp
      have "((length xs - 1) + n) div n = Suc ((length xs - 1) div n)"
        using 1(2) div_add_self2 [of n "length xs - 1"] by simp
      with e have "(length xs + n - 1) div n = Suc ((length xs - 1) div n)"
        by (simp only:)
      with long ih show ?thesis by (simp only: list.size length_Cons)
    qed
  qed
qed

lemma length_batches_nth:
  "0 < n \<Longrightarrow> Suc i < length (batches n xs) \<Longrightarrow> length (batches n xs ! i) = n"
proof (induction n xs arbitrary: i rule: batches.induct)
  case (1 n xs)
  show ?case
  proof (cases "xs = [] \<or> length xs \<le> n")
    case True
    then have "length (batches n xs) \<le> 1"
      by (auto simp: batches_Nil batches_le)
    with 1(3) show ?thesis by simp
  next
    case False
    then have long: "batches n xs = take n xs # batches n (drop n xs)"
      using 1(2) by (simp add: batches_long)
    show ?thesis
    proof (cases i)
      case 0
      with long False show ?thesis by simp
    next
      case (Suc j)
      with long 1(3) have "Suc j < length (batches n (drop n xs))" by simp
      with 1(1) False 1(2) have "length (batches n (drop n xs) ! j) = n" by simp
      with long Suc show ?thesis by simp
    qed
  qed
qed

lemma length_batches_last:
  "0 < n \<Longrightarrow> xs \<noteq> [] \<Longrightarrow>
   0 < length (last (batches n xs)) \<and> length (last (batches n xs)) \<le> n"
proof (induction n xs rule: batches.induct)
  case (1 n xs)
  show ?case
  proof (cases "length xs \<le> n")
    case True
    with 1(3) show ?thesis by (simp add: batches_short)
  next
    case False
    then have long: "batches n xs = take n xs # batches n (drop n xs)"
      using 1(2) by (simp add: batches_long)
    from False have rest: "drop n xs \<noteq> []" by simp
    then have "batches n (drop n xs) \<noteq> []"
      by (subst batches.simps) simp
    with long have "last (batches n xs) = last (batches n (drop n xs))" by simp
    with 1(1) 1(2) 1(3) False rest show ?thesis by simp
  qed
qed

subsection \<open>The loops of the dumper\<close>

lemma Join_separated: "Join xs sep = separated sep xs"
  by (induction xs sep rule: Join.induct) simp_all

lemma WriteTableData_cells_map:
  "WriteTableData_cells esc cs vals =
     vals @ map (\<lambda>c. case c of None \<Rightarrow> ''NULL'' | Some bytes \<Rightarrow> [quote] @ esc bytes @ [quote]) cs"
  by (induction cs arbitrary: vals) (simp_all add: Let_def split: option.splits)

lemma WriteTableData_tuple_text:
  "WriteTableData_tuple esc cells =
     ''( '' @ separated '', ''
               (map (\<lambda>cell. case cell of
                             None \<Rightarrow> ''NULL''
                           | Some bytes \<Rightarrow> [CHR 0x27] @ esc bytes @ [CHR 0x27]) cells)
           @ '' )''"
proof -
  have "(\<lambda>c. case c of None \<Rightarrow> ''NULL'' | Some bytes \<Rightarrow> [quote] @ esc bytes @ [quote]) =
        (\<lambda>cell. case cell of None \<Rightarrow> ''NULL'' | Some bytes \<Rightarrow> [CHR 0x27] @ esc bytes @ [CHR 0x27])"
    unfolding quote_def by (rule refl)
  then have "WriteTableData_cells esc cells [] =
        map (\<lambda>cell. case cell of None \<Rightarrow> ''NULL'' | Some bytes \<Rightarrow> [CHR 0x27] @ esc bytes @ [CHR 0x27])
          cells"
    by (simp only: WriteTableData_cells_map append_Nil)
  then show ?thesis
    by (simp only: WriteTableData_tuple_def Join_separated)
qed

lemma WriteTableData_rows_unbounded:
  assumes "ExtendedInsertRows d = 0" and "\<forall>cells\<in>set rs. length cells = m"
  shows "WriteTableData_rows esc d query m rs data tr =
           (Inr (data @ map (WriteTableData_tuple esc) rs), tr)"
  using assms(2)
proof (induction rs arbitrary: data)
  case Nil
  show ?case by simp
next
  case (Cons r rs)
  then show ?case using assms(1) by (simp add: Scan_raw_def Let_def)
qed

lemma WriteTableData_rows_batched:
  assumes N: "ExtendedInsertRows d \<noteq> 0"
    and n: "n = (if ExtendedInsertRows d < 0 then 1 else nat (ExtendedInsertRows d))"
  shows "\<forall>cells\<in>set rs. length cells = m \<Longrightarrow> length data < n \<Longrightarrow>
         \<exists>data' bs.
           WriteTableData_rows esc d query m rs data tr =
             (Inr data', tr @ map (\<lambda>b. Write (insert_statement query b)) bs)
           \<and> bs @ (if data' = [] then [] else [data'])
               = batches n (data @ map (WriteTableData_tuple esc) rs)"
proof (induction rs arbitrary: data tr)
  case Nil
  then have "batches n data = (if data = [] then [] else [data])"
    by (simp add: batches_le)
  then show ?case by simp
next
  case (Cons r rs)
  from N n have pos: "0 < n" by (simp split: if_splits)
  let ?data1 = "data @ [WriteTableData_tuple esc r]"
  from Cons.prems have r: "length r = m" and rs: "\<forall>cells\<in>set rs. length cells = m"
    by simp_all
  show ?case
  proof (cases "int (length ?data1) \<ge> ExtendedInsertRows d")
    case True
    with N n Cons.prems(2) have full: "length ?data1 = n"
      by (simp split: if_splits)
    have empty: "length ([] :: string list) < n" using pos by simp
    from Cons.IH [OF rs empty, of "tr @ [Write (insert_statement query ?data1)]"]
    obtain data' bs where
      run: "WriteTableData_rows esc d query m rs []
              (tr @ [Write (insert_statement query ?data1)]) =
            (Inr data', (tr @ [Write (insert_statement query ?data1)])
                          @ map (\<lambda>b. Write (insert_statement query b)) bs)"
      and bs: "bs @ (if data' = [] then [] else [data']) =
               batches n ([] @ map (WriteTableData_tuple esc) rs)"
      by blast
    have "batches n (?data1 @ map (WriteTableData_tuple esc) rs) =
            ?data1 # batches n (map (WriteTableData_tuple esc) rs)"
      using pos full by (rule batches_append_full)
    with bs have "(?data1 # bs) @ (if data' = [] then [] else [data']) =
                  batches n (data @ map (WriteTableData_tuple esc) (r # rs))"
      by simp
    moreover have "WriteTableData_rows esc d query m (r # rs) data tr =
           (Inr data', tr @ map (\<lambda>b. Write (insert_statement query b)) (?data1 # bs))"
      using True N r run by (simp add: Scan_raw_def Let_def Fprintf_def)
    ultimately show ?thesis by blast
  next
    case False
    with N n Cons.prems(2) have less: "length ?data1 < n"
      by (simp split: if_splits)
    from Cons.IH [OF rs less, of tr]
    obtain data' bs where
      run: "WriteTableData_rows esc d query m rs ?data1 tr =
            (Inr data', tr @ map (\<lambda>b. Write (insert_statement query b)) bs)"
      and bs: "bs @ (if data' = [] then [] else [data']) =
               batches n (?data1 @ map (WriteTableData_tuple esc) rs)"
      by blast
    from bs have "bs @ (if data' = [] then [] else [data']) =
                  batches n (data @ map (WriteTableData_tuple esc) (r # rs))"
      by simp
    moreover have "WriteTableData_rows esc d query m (r # rs) data tr =
           (Inr data', tr @ map (\<lambda>b. Write (insert_statement query b)) bs)"
      using False N r run by (simp add: Scan_raw_def Let_def)
    ultimately show ?thesis by blast
  qed
qed

lemma GetColumnsForSelect_range_map:
  "GetColumnsForSelect_range lower d table cols = map (select_column lower d table) cols"
  by (induction cols) simp_all

lemma escape_byte_cases:
  "escape_byte =
     (\<lambda>b. if b = CHR 0x27 then [CHR 0x5C, CHR 0x27]
          else if b = CHR 0x5C then [CHR 0x5C, CHR 0x5C]
          else if b = CHR 0x00 then [CHR 0x5C, CHR ''0'']
          else if b = CHR ''\<newline>'' then [CHR 0x5C, CHR ''n'']
          else if b = CHR 0x0D then [CHR 0x5C, CHR ''r'']
          else if b = CHR 0x1A then [CHR 0x5C, CHR ''Z'']
          else [b])"
  by (auto simp: fun_eq_iff escape_byte_def escape_table_def quote_def backslash_def)

section \<open>The claims\<close>

text \<open>
  Claim C1. Let \<^verbatim>\<open>WriteTableData\<close> get its cursor, and let every one of the \<open>R\<close> rows that
  the cursor delivers have as many cells as there are columns. Then it reports success, and
  what it writes after the two statements of \<^verbatim>\<open>selectAllDataFor\<close> is one statement per
  batch \<open>bs\<close>: the line \<^verbatim>\<open>INSERT INTO `table` VALUES\<close>, the tuples of the batch separated
  by a comma and a newline, and \<^verbatim>\<open>;\<close> with a newline. The batches hold the tuples of the
  rows in cursor order; the tuple of a row is \<^verbatim>\<open>( \<close>, the texts of its cells separated by a
  comma and a space, and \<^verbatim>\<open> )\<close>, where the text of a null cell is \<^verbatim>\<open>NULL\<close> and the text
  of any other cell is \<open>esc\<close> of its bytes between single quotes. With no row there is no
  batch; with \<open>ExtendedInsertRows = 0\<close> and a row there is one batch; with
  \<open>N = ExtendedInsertRows > 0\<close> there are \<open>(R + N - 1) div N\<close> batches, that is
  \<open>R / N\<close> rounded up, every batch but the last has \<open>N\<close> tuples, and the last has between
  one and \<open>N\<close>.
\<close>

theorem WriteTableData_insert_statements:
  assumes sel: "selectAllDataFor lower d table tr = (Inr (rs, cols), tr1)"
    and width: "\<forall>cells\<in>set rs. length cells = length cols"
  shows "\<exists>bs.
     WriteTableData lower esc d table tr =
       (None,
        tr1 @ map (\<lambda>b. Write (''INSERT INTO `'' @ table @ ''` VALUES'' @ ''\<newline>''
                              @ separated '',\<newline>'' b @ '';\<newline>'')) bs)
     \<and> concat bs =
         map (\<lambda>cells.
                ''( '' @ separated '', ''
                          (map (\<lambda>cell. case cell of
                                        None \<Rightarrow> ''NULL''
                                      | Some bytes \<Rightarrow> [CHR 0x27] @ esc bytes @ [CHR 0x27])
                             cells)
                      @ '' )'') rs
     \<and> (rs = [] \<longrightarrow> bs = [])
     \<and> (ExtendedInsertRows d = 0 \<and> rs \<noteq> [] \<longrightarrow> length bs = 1)
     \<and> (0 < ExtendedInsertRows d \<longrightarrow>
          length bs = (length rs + nat (ExtendedInsertRows d) - 1) div nat (ExtendedInsertRows d)
          \<and> (\<forall>i. Suc i < length bs \<longrightarrow> length (bs ! i) = nat (ExtendedInsertRows d))
          \<and> (bs \<noteq> [] \<longrightarrow> 0 < length (last bs)
                         \<and> length (last bs) \<le> nat (ExtendedInsertRows d)))"
proof -
  let ?query = "''INSERT INTO `'' @ table @ ''` VALUES''"
  let ?W = "\<lambda>b. Write (insert_statement ?query b)"
  let ?tuples = "map (WriteTableData_tuple esc) rs"
  define n where "n = (if ExtendedInsertRows d < 0 then 1 else nat (ExtendedInsertRows d))"
  have run: "WriteTableData lower esc d table tr = (None, tr1 @ map ?W (batches n ?tuples))"
  proof (cases "ExtendedInsertRows d = 0")
    case True
    then have "n = 0" by (simp add: n_def)
    then have "batches n ?tuples = (if ?tuples = [] then [] else [?tuples])"
      by (simp add: batches_le)
    moreover have "WriteTableData_rows esc d ?query (length cols) rs [] tr1 =
                     (Inr ([] @ ?tuples), tr1)"
      using True width by (rule WriteTableData_rows_unbounded)
    ultimately show ?thesis
      using sel by (simp add: WriteTableData_def Fprintf_def Let_def)
  next
    case False
    then have "0 < n" by (simp add: n_def)
    then have "length ([] :: string list) < n" by simp
    with WriteTableData_rows_batched [OF False n_def width, of "[]" esc ?query tr1]
    obtain data' bs where
      rows: "WriteTableData_rows esc d ?query (length cols) rs [] tr1 =
               (Inr data', tr1 @ map ?W bs)"
      and bs: "bs @ (if data' = [] then [] else [data']) = batches n ([] @ ?tuples)"
      by blast
    from bs have eq: "batches n ?tuples = bs @ (if data' = [] then [] else [data'])"
      by simp
    have "map ?W (batches n ?tuples) = map ?W bs @ (if data' = [] then [] else [?W data'])"
      unfolding eq by simp
    with rows sel show ?thesis
      by (simp add: WriteTableData_def Fprintf_def Let_def)
  qed
  have shape: "(\<lambda>b. Write (''INSERT INTO `'' @ table @ ''` VALUES'' @ ''\<newline>''
                              @ separated '',\<newline>'' b @ '';\<newline>'')) = ?W"
    by (simp add: insert_statement_def Join_separated)
  have tuple_text: "(\<lambda>cells.
                ''( '' @ separated '', ''
                          (map (\<lambda>cell. case cell of
                                        None \<Rightarrow> ''NULL''
                                      | Some bytes \<Rightarrow> [CHR 0x27] @ esc bytes @ [CHR 0x27])
                             cells)
                      @ '' )'') = WriteTableData_tuple esc"
    by (rule ext) (simp only: WriteTableData_tuple_text)
  have c1: "concat (batches n ?tuples) = ?tuples"
    by (rule concat_batches)
  have c2: "rs = [] \<longrightarrow> batches n ?tuples = []"
    by (simp add: batches_Nil)
  have c3: "ExtendedInsertRows d = 0 \<and> rs \<noteq> [] \<longrightarrow> length (batches n ?tuples) = 1"
    by (simp add: n_def batches_short)
  have c4: "0 < ExtendedInsertRows d \<longrightarrow>
          length (batches n ?tuples)
            = (length rs + nat (ExtendedInsertRows d) - 1) div nat (ExtendedInsertRows d)
          \<and> (\<forall>i. Suc i < length (batches n ?tuples)
                 \<longrightarrow> length (batches n ?tuples ! i) = nat (ExtendedInsertRows d))
          \<and> (batches n ?tuples \<noteq> [] \<longrightarrow> 0 < length (last (batches n ?tuples))
                         \<and> length (last (batches n ?tuples)) \<le> nat (ExtendedInsertRows d))"
  proof
    assume pos: "0 < ExtendedInsertRows d"
    then have n: "n = nat (ExtendedInsertRows d)" and "0 < n"
      by (simp_all add: n_def)
    have "length (batches n ?tuples) = (length ?tuples + n - 1) div n"
      using \<open>0 < n\<close> by (rule length_batches)
    moreover have "\<forall>i. Suc i < length (batches n ?tuples) \<longrightarrow> length (batches n ?tuples ! i) = n"
      using \<open>0 < n\<close> by (simp add: length_batches_nth)
    moreover have "batches n ?tuples \<noteq> [] \<longrightarrow>
        0 < length (last (batches n ?tuples)) \<and> length (last (batches n ?tuples)) \<le> n"
    proof
      assume "batches n ?tuples \<noteq> []"
      then have "?tuples \<noteq> []" by (auto simp: batches_Nil)
      with \<open>0 < n\<close> show "0 < length (last (batches n ?tuples)) \<and> length (last (batches n ?tuples)) \<le> n"
        by (rule length_batches_last)
    qed
    ultimately show "length (batches n ?tuples)
            = (length rs + nat (ExtendedInsertRows d) - 1) div nat (ExtendedInsertRows d)
          \<and> (\<forall>i. Suc i < length (batches n ?tuples)
                 \<longrightarrow> length (batches n ?tuples ! i) = nat (ExtendedInsertRows d))
          \<and> (batches n ?tuples \<noteq> [] \<longrightarrow> 0 < length (last (batches n ?tuples))
                         \<and> length (last (batches n ?tuples)) \<le> nat (ExtendedInsertRows d))"
      unfolding n by simp
  qed
  from run shape tuple_text c1 c2 c3 c4 show ?thesis
    by (intro exI [of _ "batches n ?tuples"]) (simp only: simp_thms)
qed

text \<open>
  The three rows of the example table with batches of two: two statements, the first
  with two tuples, the second with the third row, whose text has an escaped quote.
\<close>

theorem WriteTableData_insert_statements_witness:
  "selectAllDataFor ascii_lower shop_client ''Users'' [] =
     (Inr (Users_rows, [''id'', ''Email'']),
      [Stmt ''SELECT * FROM `Users` LIMIT 1'', Stmt ''SELECT `id`, `Email` FROM `Users`''])
   \<and> list_all (\<lambda>cells. length cells = length [''id'', ''Email'']) Users_rows
   \<and> ExtendedInsertRows shop_client = 2
   \<and> WriteTableData ascii_lower escape shop_client ''Users'' [] =
       (None,
        [Stmt ''SELECT * FROM `Users` LIMIT 1'',
         Stmt ''SELECT `id`, `Email` FROM `Users`'',
         Write (''INSERT INTO `Users` VALUES\<newline>''
                @ ''( '' @ [CHR 0x27] @ ''1'' @ [CHR 0x27] @ '', ''
                         @ [CHR 0x27] @ ''a@x.org'' @ [CHR 0x27] @ '' ),\<newline>''
                @ ''( '' @ [CHR 0x27] @ ''2'' @ [CHR 0x27] @ '', NULL );\<newline>''),
         Write (''INSERT INTO `Users` VALUES\<newline>''
                @ ''( '' @ [CHR 0x27] @ ''3'' @ [CHR 0x27] @ '', ''
                         @ [CHR 0x27] @ ''o'' @ [CHR 0x5C, CHR 0x27] @ ''k'' @ [CHR 0x27]
                         @ '' );\<newline>'')])"
proof -
  let ?tr1 = "[Stmt ''SELECT * FROM `Users` LIMIT 1'', Stmt ''SELECT `id`, `Email` FROM `Users`'']"
  let ?t1 = "''( '' @ [CHR 0x27] @ ''1'' @ [CHR 0x27] @ '', ''
                   @ [CHR 0x27] @ ''a@x.org'' @ [CHR 0x27] @ '' )''"
  let ?t2 = "''( '' @ [CHR 0x27] @ ''2'' @ [CHR 0x27] @ '', NULL )''"
  let ?t3 = "''( '' @ [CHR 0x27] @ ''3'' @ [CHR 0x27] @ '', ''
                   @ [CHR 0x27] @ ''o'' @ [CHR 0x5C, CHR 0x27] @ ''k'' @ [CHR 0x27] @ '' )''"
  have h1: "selectAllDataFor ascii_lower shop_client ''Users'' [] =
              (Inr (Users_rows, [''id'', ''Email'']), ?tr1)"
    by (simp add: selectAllDataFor_def GetSelectQueryForTable_def GetColumnsForSelect_def
        select_column_def index2_def Query_def db_defs ascii_lower_def)
  have h2: "\<forall>cells\<in>set Users_rows. length cells = length [''id'', ''Email'']"
    by (simp add: Users_rows_def)
  have wide: "list_all (\<lambda>cells. length cells = length [''id'', ''Email'']) Users_rows"
    by (simp add: Users_rows_def)
  have N: "ExtendedInsertRows shop_client = 2"
    by (simp add: shop_client_def)
  have R: "length Users_rows = 3"
    by (simp add: Users_rows_def)
  have tuples: "map (\<lambda>cells.
                ''( '' @ separated '', ''
                          (map (\<lambda>cell. case cell of
                                        None \<Rightarrow> ''NULL''
                                      | Some bytes \<Rightarrow> [CHR 0x27] @ escape bytes @ [CHR 0x27])
                             cells)
                      @ '' )'') Users_rows = [?t1, ?t2, ?t3]"
    by (simp add: Users_rows_def escape_def escape_byte_def escape_table_def quote_def
        backslash_def)
  from WriteTableData_insert_statements [OF h1 h2, of escape]
  obtain bs where
    run: "WriteTableData ascii_lower escape shop_client ''Users'' [] =
       (None,
        ?tr1 @ map (\<lambda>b. Write (''INSERT INTO `'' @ ''Users'' @ ''` VALUES'' @ ''\<newline>''
                              @ separated '',\<newline>'' b @ '';\<newline>'')) bs)"
    and cat: "concat bs =
         map (\<lambda>cells.
                ''( '' @ separated '', ''
                          (map (\<lambda>cell. case cell of
                                        None \<Rightarrow> ''NULL''
                                      | Some bytes \<Rightarrow> [CHR 0x27] @ escape bytes @ [CHR 0x27])
                             cells)
                      @ '' )'') Users_rows"
    and cnt: "0 < ExtendedInsertRows shop_client \<longrightarrow>
          length bs = (length Users_rows + nat (ExtendedInsertRows shop_client) - 1)
                        div nat (ExtendedInsertRows shop_client)
          \<and> (\<forall>i. Suc i < length bs \<longrightarrow> length (bs ! i) = nat (ExtendedInsertRows shop_client))
          \<and> (bs \<noteq> [] \<longrightarrow> 0 < length (last bs)
                         \<and> length (last bs) \<le> nat (ExtendedInsertRows shop_client))"
    by blast
  from cnt N R have len: "length bs = 2"
    by simp
  from cnt N len have first: "length (bs ! 0) = 2"
    by simp
  from len obtain b0 b1 where bs: "bs = [b0, b1]"
    by (cases bs; simp) (case_tac list; simp)
  from cat tuples bs have "b0 @ b1 = [?t1, ?t2, ?t3]"
    by simp
  with first bs have "b0 = [?t1, ?t2]" and "b1 = [?t3]"
    by (simp_all add: append_eq_conv_conj)
  with bs run have "WriteTableData ascii_lower escape shop_client ''Users'' [] =
       (None,
        [Stmt ''SELECT * FROM `Users` LIMIT 1'',
         Stmt ''SELECT `id`, `Email` FROM `Users`'',
         Write (''INSERT INTO `Users` VALUES\<newline>''
                @ ''( '' @ [CHR 0x27] @ ''1'' @ [CHR 0x27] @ '', ''
                         @ [CHR 0x27] @ ''a@x.org'' @ [CHR 0x27] @ '' ),\<newline>''
                @ ''( '' @ [CHR 0x27] @ ''2'' @ [CHR 0x27] @ '', NULL );\<newline>''),
         Write (''INSERT INTO `Users` VALUES\<newline>''
                @ ''( '' @ [CHR 0x27] @ ''3'' @ [CHR 0x27] @ '', ''
                         @ [CHR 0x27] @ ''o'' @ [CHR 0x5C, CHR 0x27] @ ''k'' @ [CHR 0x27]
                         @ '' );\<newline>'')])"
    by simp
  with h1 wide N show ?thesis
    by blast
qed

text \<open>
  Claim C2. The claim says that \<^verbatim>\<open>GetTables\<close> returns an empty list with the error when a
  row does not scan. The code returns the variable \<open>tables\<close> as the loop has left it: on
  the table list whose first row is the base table \<^verbatim>\<open>Users\<close> and whose second row has a
  NULL type, it returns the list with \<^verbatim>\<open>Users\<close> together with the error.
\<close>

theorem GetTables_keeps_partial_list:
  "GetTables (NewMySQLDumper bad_tables_db) [] =
     (([''Users''], Some ErrConvert), [Stmt ''SHOW FULL TABLES''])"
  by (simp add: GetTables_def Query_def bad_tables_db_def db_defs)

text \<open>
  Claim C3. The claim says that \<^verbatim>\<open>WriteTable\<close> stops and returns the error when the
  structure step fails. The code drops the result of \<^verbatim>\<open>WriteCreateTable\<close>: when the
  statement that fetches the DDL fails, \<^verbatim>\<open>WriteCreateTable\<close> returns the error, and
  \<^verbatim>\<open>WriteTable\<close> goes on to the data section and reports success, with a script that
  has no \<^verbatim>\<open>CREATE TABLE\<close>.
\<close>

theorem WriteTable_drops_structure_error:
  "fst (WriteCreateTable (NewMySQLDumper no_ddl_db) ''Users'' []) = Some (DriverError ''gone away'')
   \<and> WriteTable ascii_lower escape (NewMySQLDumper no_ddl_db) ''Users'' [] =
       (None,
        [Write ''\<newline>--\<newline>-- Structure for table `Users`\<newline>--\<newline>\<newline>'',
         Write ''DROP TABLE IF EXISTS `Users`;\<newline>'',
         Stmt ''SHOW CREATE TABLE `Users`'',
         Write ''\<newline>--\<newline>-- Data for table `Users`'',
         Stmt ''SELECT COUNT(*) FROM `Users`'',
         Write '' -- 3 rows\<newline>--\<newline>\<newline>'',
         Write ''LOCK TABLES `Users` WRITE;\<newline>'',
         Stmt ''SELECT * FROM `Users` LIMIT 1'',
         Stmt ''SELECT `id`, `Email` FROM `Users`'',
         Write (''INSERT INTO `Users` VALUES\<newline>( '' @ [quote] @ ''1'' @ [quote] @ '', ''
                  @ [quote] @ ''a@x.org'' @ [quote] @ '' ),\<newline>( ''
                  @ [quote] @ ''2'' @ [quote] @ '', NULL ),\<newline>( ''
                  @ [quote] @ ''3'' @ [quote] @ '', ''
                  @ [quote] @ ''o'' @ [backslash, quote] @ ''k'' @ [quote] @ '' );\<newline>''),
         Write ''\<newline>'',
         Write ''UNLOCK TABLES;\<newline>''])"
  by (simp add: dumper_defs handle_defs no_ddl_db_def db_defs ascii_lower_def escape_def escape_byte_def escape_table_def
      quote_def backslash_def decimal.simps)

text \<open>
  Claim C4. The claim says that \<^verbatim>\<open>WriteTable\<close> returns the error of a failed
  \<^verbatim>\<open>WriteTableData\<close>. The code drops that result too: when the statement that reads
  the rows fails, \<^verbatim>\<open>WriteTableData\<close> returns the error and \<^verbatim>\<open>WriteTable\<close> writes the
  blank line and the unlock marker and reports success, with no \<^verbatim>\<open>INSERT\<close> for a table
  of three rows.
\<close>

theorem WriteTable_drops_data_error:
  "fst (WriteTableData ascii_lower escape (NewMySQLDumper no_data_db) ''Users'' [])
     = Some (DriverError ''gone away'')
   \<and> WriteTable ascii_lower escape (NewMySQLDumper no_data_db) ''Users'' [] =
       (None,
        [Write ''\<newline>--\<newline>-- Structure for table `Users`\<newline>--\<newline>\<newline>'',
         Write ''DROP TABLE IF EXISTS `Users`;\<newline>'',
         Stmt ''SHOW CREATE TABLE `Users`'',
         Write ''CREATE TABLE `Users` (`id` int, `Email` text);\<newline>'',
         Write ''\<newline>--\<newline>-- Data for table `Users`'',
         Stmt ''SELECT COUNT(*) FROM `Users`'',
         Write '' -- 3 rows\<newline>--\<newline>\<newline>'',
         Write ''LOCK TABLES `Users` WRITE;\<newline>'',
         Stmt ''SELECT * FROM `Users` LIMIT 1'',
         Stmt ''SELECT `id`, `Email` FROM `Users`'',
         Write ''\<newline>'',
         Write ''UNLOCK TABLES;\<newline>''])"
  by (simp add: dumper_defs handle_defs no_data_db_def db_defs ascii_lower_def decimal.simps)

text \<open>
  Claim C5. When the probe statement gives the columns \<open>cols\<close>, \<^verbatim>\<open>GetColumnsForSelect\<close>
  returns a list of the same length whose entry at each position is built from the column
  at that position: the expression that \<open>SelectMap\<close> has under the lower-cased table and
  column names, followed by \<^verbatim>\<open>AS\<close> and the original name in backticks, or, without such
  an expression, the original name in backticks.
\<close>

theorem GetColumnsForSelect_columns:
  assumes "DB d (issued tr) (''SELECT * FROM `'' @ table @ ''` LIMIT 1'') = Inr rows"
    and "Columns rows = Inr cols"
  shows "\<exists>out.
     GetColumnsForSelect lower d table tr =
       (Inr out, tr @ [Stmt (''SELECT * FROM `'' @ table @ ''` LIMIT 1'')])
     \<and> length out = length cols
     \<and> (\<forall>k<length cols.
           out ! k =
             (case SelectMap d (lower table) of
                None \<Rightarrow> ''`'' @ cols ! k @ ''`''
              | Some substitutions \<Rightarrow>
                  (case substitutions (lower (cols ! k)) of
                     None \<Rightarrow> ''`'' @ cols ! k @ ''`''
                   | Some e \<Rightarrow> e @ '' AS `'' @ cols ! k @ ''`'')))"
  using assms
  by (simp add: GetColumnsForSelect_def Query_def GetColumnsForSelect_range_map
      select_column_def index2_def split: option.splits)

text \<open>
  The example table with a substitution for the column \<^verbatim>\<open>Email\<close>, stored under lower-case
  keys.
\<close>

theorem GetColumnsForSelect_columns_witness:
  "DB (shop_client\<lparr>SelectMap := [''users'' \<mapsto> [''email'' \<mapsto> ''NOW()'']]\<rparr>) (issued [])
      ''SELECT * FROM `Users` LIMIT 1'' = table_rows [''id'', ''Email''] (take 1 Users_rows)
   \<and> GetColumnsForSelect ascii_lower
         (shop_client\<lparr>SelectMap := [''users'' \<mapsto> [''email'' \<mapsto> ''NOW()'']]\<rparr>) ''Users'' [] =
       (Inr [''`id`'', ''NOW() AS `Email`''], [Stmt ''SELECT * FROM `Users` LIMIT 1''])"
proof -
  let ?d = "shop_client\<lparr>SelectMap := [''users'' \<mapsto> [''email'' \<mapsto> ''NOW()'']]\<rparr>"
  let ?rows = "\<lparr>Columns = Inr [''id'', ''Email''], cursor = take 1 Users_rows, Err = None\<rparr>"
  have h1: "DB ?d (issued []) (''SELECT * FROM `'' @ ''Users'' @ ''` LIMIT 1'') = Inr ?rows"
    by (simp add: db_defs)
  have h2: "Columns ?rows = Inr [''id'', ''Email'']"
    by simp
  from GetColumnsForSelect_columns [OF h1 h2, of ascii_lower]
  obtain out where
    run: "GetColumnsForSelect ascii_lower ?d ''Users'' [] =
            (Inr out, [Stmt ''SELECT * FROM `Users` LIMIT 1''])"
    and len: "length out = 2"
    and nth: "\<forall>k<2. out ! k =
             (case SelectMap ?d (ascii_lower ''Users'') of
                None \<Rightarrow> ''`'' @ [''id'', ''Email''] ! k @ ''`''
              | Some substitutions \<Rightarrow>
                  (case substitutions (ascii_lower ([''id'', ''Email''] ! k)) of
                     None \<Rightarrow> ''`'' @ [''id'', ''Email''] ! k @ ''`''
                   | Some e \<Rightarrow> e @ '' AS `'' @ [''id'', ''Email''] ! k @ ''`''))"
    by auto
  from nth have "out ! 0 = ''`id`''"
    by (simp add: ascii_lower_def)
  moreover from nth have "out ! 1 = ''NOW() AS `Email`''"
    by (simp add: ascii_lower_def)
  moreover from len obtain a b where "out = [a, b]"
    by (cases out; simp) (case_tac list; simp)
  ultimately have "out = [''`id`'', ''NOW() AS `Email`'']"
    by simp
  with run h1 show ?thesis
    by (simp add: table_rows_def)
qed

text \<open>
  Claim C6. The statement that \<^verbatim>\<open>GetRowCountForTable\<close> sends and the query that
  \<^verbatim>\<open>GetSelectQueryForTable\<close> returns are the query without a filter followed by
  \<^verbatim>\<open> WHERE \<close> and the expression of \<open>WhereMap\<close> under the lower-cased table name, as it
  is, when there is one, and by nothing when there is none.
\<close>

theorem where_clause_propagation:
  "snd (GetRowCountForTable lower d table tr) =
     tr @ [Stmt (''SELECT COUNT(*) FROM `'' @ table @ ''`''
                 @ (case WhereMap d (lower table) of
                      None \<Rightarrow> [] | Some e \<Rightarrow> '' WHERE '' @ e))]
   \<and> (GetColumnsForSelect lower d table tr = (Inr cols, tr1) \<longrightarrow>
        GetSelectQueryForTable lower d table tr =
          (Inr (''SELECT '' @ separated '', '' cols @ '' FROM `'' @ table @ ''`''
                @ (case WhereMap d (lower table) of
                     None \<Rightarrow> [] | Some e \<Rightarrow> '' WHERE '' @ e)),
           tr1))"
  by (simp add: GetRowCountForTable_def GetSelectQueryForTable_def QueryRow_def Query_def
      Join_separated
      Let_def split: option.splits sum.splits list.splits prod.splits)

theorem where_clause_propagation_witness:
  "GetColumnsForSelect ascii_lower (shop_client\<lparr>WhereMap := [''users'' \<mapsto> ''id > 100'']\<rparr>)
      ''Users'' [] = (Inr [''`id`'', ''`Email`''], [Stmt ''SELECT * FROM `Users` LIMIT 1''])
   \<and> snd (GetRowCountForTable ascii_lower (shop_client\<lparr>WhereMap := [''users'' \<mapsto> ''id > 100'']\<rparr>)
            ''Users'' []) = [Stmt ''SELECT COUNT(*) FROM `Users` WHERE id > 100'']
   \<and> GetSelectQueryForTable ascii_lower (shop_client\<lparr>WhereMap := [''users'' \<mapsto> ''id > 100'']\<rparr>)
            ''Users'' [] =
         (Inr ''SELECT `id`, `Email` FROM `Users` WHERE id > 100'',
          [Stmt ''SELECT * FROM `Users` LIMIT 1''])"
proof -
  let ?d = "shop_client\<lparr>WhereMap := [''users'' \<mapsto> ''id > 100'']\<rparr>"
  have h: "GetColumnsForSelect ascii_lower ?d ''Users'' [] =
             (Inr [''`id`'', ''`Email`''], [Stmt ''SELECT * FROM `Users` LIMIT 1''])"
    by (simp add: GetColumnsForSelect_def Query_def select_column_def index2_def db_defs
        ascii_lower_def)
  have w: "WhereMap ?d (ascii_lower ''Users'') = Some ''id > 100''"
    by (simp add: ascii_lower_def)
  from where_clause_propagation
         [of ascii_lower ?d "''Users''" "[]" "[''`id`'', ''`Email`'']"
             "[Stmt ''SELECT * FROM `Users` LIMIT 1'']"]
       h w
  show ?thesis by simp
qed

text \<open>
  Claim C7. When \<open>FilterMap\<close> has \<^verbatim>\<open>ignore\<close> under the lower-cased table name,
  \<^verbatim>\<open>WriteTable\<close> reports success and leaves the trace as it was: no write, no statement.
\<close>

theorem WriteTable_ignore:
  "FilterMap d (lower table) = Some ''ignore''
   \<Longrightarrow> WriteTable lower esc d table tr = (None, tr)"
  by (simp add: WriteTable_def index_def OperationIgnore_def)

theorem WriteTable_ignore_witness:
  "FilterMap (shop_client\<lparr>FilterMap := [''users'' \<mapsto> ''ignore'']\<rparr>) (ascii_lower ''Users'')
     = Some ''ignore''
   \<and> WriteTable ascii_lower escape (shop_client\<lparr>FilterMap := [''users'' \<mapsto> ''ignore'']\<rparr>)
         ''Users'' [] = (None, [])"
proof -
  have h: "FilterMap (shop_client\<lparr>FilterMap := [''users'' \<mapsto> ''ignore'']\<rparr>) (ascii_lower ''Users'')
             = Some ''ignore''"
    by (simp add: ascii_lower_def)
  from WriteTable_ignore
         [of "shop_client\<lparr>FilterMap := [''users'' \<mapsto> ''ignore'']\<rparr>" ascii_lower "''Users''"
             escape "[]"]
       h
  show ?thesis by simp
qed

text \<open>
  Claim C8. Let the table have no entry in \<open>FilterMap\<close>, let the database give its DDL, and
  let the count statement, with the filter of \<open>WhereMap\<close> when there is one, give zero.
  Then \<^verbatim>\<open>WriteTable\<close> reports success, and after the lock statements (sent when
  \<open>UseTableLock\<close> holds) the trace is the structure comment, the \<^verbatim>\<open>DROP TABLE IF EXISTS\<close>
  statement, the DDL with \<^verbatim>\<open>;\<close>, the data comment and the count line, and nothing else:
  no lock marker, no \<^verbatim>\<open>INSERT\<close>, no unlock marker, and no statement that reads rows.
\<close>

theorem WriteTable_zero_rows:
  assumes nofilter: "FilterMap d (lower table) = None"
    and hist: "hist = issued tr @ (if UseTableLock d
                 then [''LOCK TABLES `'' @ table @ ''` READ'', ''FLUSH TABLES `'' @ table @ ''`'']
                 else [])"
    and countq: "countq = ''SELECT COUNT(*) FROM `'' @ table @ ''`''
                   @ (case WhereMap d (lower table) of None \<Rightarrow> [] | Some e \<Rightarrow> '' WHERE '' @ e)"
    and ddl1: "DB d hist (''SHOW CREATE TABLE `'' @ table @ ''`'') = Inr ddl_rows"
    and ddl2: "cursor ddl_rows = [Some name, Some ddl] # ddl_more"
    and cnt1: "DB d (hist @ [''SHOW CREATE TABLE `'' @ table @ ''`'']) countq = Inr count_rows"
    and cnt2: "cursor count_rows = [Some c] # count_more"
    and zero: "ParseUint c = Some 0"
  shows "WriteTable lower esc d table tr =
     (None,
      tr @ (if UseTableLock d
            then [Stmt (''LOCK TABLES `'' @ table @ ''` READ''),
                  Stmt (''FLUSH TABLES `'' @ table @ ''`'')]
            else [])
         @ [Write (''\<newline>--\<newline>-- Structure for table `'' @ table @ ''`\<newline>--\<newline>\<newline>''),
            Write (''DROP TABLE IF EXISTS `'' @ table @ ''`;\<newline>''),
            Stmt (''SHOW CREATE TABLE `'' @ table @ ''`''),
            Write (ddl @ '';\<newline>''),
            Write (''\<newline>--\<newline>-- Data for table `'' @ table @ ''`''),
            Stmt countq,
            Write '' -- 0 rows\<newline>--\<newline>\<newline>''])"
proof -
  let ?show = "''SHOW CREATE TABLE `'' @ table @ ''`''"
  define tr1 where "tr1 = tr @ (if UseTableLock d
            then [Stmt (''LOCK TABLES `'' @ table @ ''` READ''),
                  Stmt (''FLUSH TABLES `'' @ table @ ''`'')]
            else [])"
  have lock: "(if UseTableLock d
               then snd (FlushTable d table (snd (LockTableReading d table tr))) else tr) = tr1"
    by (simp add: tr1_def FlushTable_def LockTableReading_def Exec_def)
  have h1: "issued tr1 = hist"
    by (simp add: hist tr1_def)
  define tr2 where "tr2 = tr1 @
           [Write (''\<newline>--\<newline>-- Structure for table `'' @ table @ ''`\<newline>--\<newline>\<newline>''),
            Write (''DROP TABLE IF EXISTS `'' @ table @ ''`;\<newline>''),
            Stmt ?show, Write (ddl @ '';\<newline>'')]"
  have create: "WriteCreateTable d table tr1 = (None, tr2)"
    using ddl1 ddl2 h1
    by (simp add: tr2_def WriteCreateTable_def QueryRow_def Query_def Fprintf_def Let_def)
  have h2: "issued tr2 = hist @ [?show]"
    using h1 by (simp add: tr2_def)
  have count: "GetRowCountForTable lower d table
                 (tr2 @ [Write (''\<newline>--\<newline>-- Data for table `'' @ table @ ''`'')]) =
               ((0, None), tr2 @ [Write (''\<newline>--\<newline>-- Data for table `'' @ table @ ''`''),
                                  Stmt countq])"
    using cnt1 cnt2 zero h2
    by (simp add: GetRowCountForTable_def QueryRow_def Query_def Let_def countq
        split: option.splits)
  have header: "WriteTableHeader lower d table tr2 =
      ((0, None), tr2 @ [Write (''\<newline>--\<newline>-- Data for table `'' @ table @ ''`''),
                         Stmt countq, Write '' -- 0 rows\<newline>--\<newline>\<newline>''])"
    using count by (simp add: WriteTableHeader_def Fprintf_def decimal.simps)
  have nf: "index (FilterMap d) (lower table) = []"
    using nofilter by (simp add: index_def)
  have "WriteTable lower esc d table tr =
      (None, tr2 @ [Write (''\<newline>--\<newline>-- Data for table `'' @ table @ ''`''),
                    Stmt countq, Write '' -- 0 rows\<newline>--\<newline>\<newline>''])"
    unfolding WriteTable_def nf OperationIgnore_def OperationNoData_def Let_def
    using lock create header by simp
  then show ?thesis
    by (simp add: tr2_def tr1_def)
qed

theorem WriteTable_zero_rows_witness:
  "FilterMap (shop_client\<lparr>WhereMap := [''users'' \<mapsto> ''id > 100''], UseTableLock := True\<rparr>)
     (ascii_lower ''Users'') = None
   \<and> ParseUint ''0'' = Some 0
   \<and> WriteTable ascii_lower escape
         (shop_client\<lparr>WhereMap := [''users'' \<mapsto> ''id > 100''], UseTableLock := True\<rparr>)
         ''Users'' [] =
       (None,
        [Stmt ''LOCK TABLES `Users` READ'',
         Stmt ''FLUSH TABLES `Users`'',
         Write ''\<newline>--\<newline>-- Structure for table `Users`\<newline>--\<newline>\<newline>'',
         Write ''DROP TABLE IF EXISTS `Users`;\<newline>'',
         Stmt ''SHOW CREATE TABLE `Users`'',
         Write ''CREATE TABLE `Users` (`id` int, `Email` text);\<newline>'',
         Write ''\<newline>--\<newline>-- Data for table `Users`'',
         Stmt ''SELECT COUNT(*) FROM `Users` WHERE id > 100'',
         Write '' -- 0 rows\<newline>--\<newline>\<newline>''])"
proof -
  let ?d = "shop_client\<lparr>WhereMap := [''users'' \<mapsto> ''id > 100''], UseTableLock := True\<rparr>"
  let ?hist = "issued [] @ (if UseTableLock ?d
                 then [''LOCK TABLES `'' @ ''Users'' @ ''` READ'', ''FLUSH TABLES `'' @ ''Users'' @ ''`'']
                 else [])"
  let ?countq = "''SELECT COUNT(*) FROM `'' @ ''Users'' @ ''`''
                   @ (case WhereMap ?d (ascii_lower ''Users'') of
                        None \<Rightarrow> [] | Some e \<Rightarrow> '' WHERE '' @ e)"
  let ?rows1 = "\<lparr>Columns = Inr [''Table'', ''Create Table''],
                 cursor = [Some ''Users'', Some Users_ddl] # [], Err = None\<rparr>"
  let ?rows2 = "\<lparr>Columns = Inr [''COUNT(*)''], cursor = [Some ''0''] # [], Err = None\<rparr>"
  have nofilter: "FilterMap ?d (ascii_lower ''Users'') = None"
    by (simp add: db_defs)
  have ddl1: "DB ?d ?hist (''SHOW CREATE TABLE `'' @ ''Users'' @ ''`'') = Inr ?rows1"
    by (simp add: db_defs)
  have ddl2: "cursor ?rows1 = [Some ''Users'', Some Users_ddl] # []"
    by simp
  have cnt1: "DB ?d (?hist @ [''SHOW CREATE TABLE `'' @ ''Users'' @ ''`'']) ?countq = Inr ?rows2"
    by (simp add: db_defs ascii_lower_def)
  have cnt2: "cursor ?rows2 = [Some ''0''] # []"
    by simp
  have zero: "ParseUint ''0'' = Some 0"
    by (simp add: ParseUint_def digit_of_def)
  from WriteTable_zero_rows
         [where d = "?d" and lower = ascii_lower and table = "''Users''" and tr = "[]"
            and esc = escape and hist = "?hist" and countq = "?countq" and ddl_rows = "?rows1"
            and name = "''Users''" and ddl = Users_ddl and ddl_more = "[]" and count_rows = "?rows2"
            and c = "''0''" and count_more = "[]",
          OF nofilter refl refl ddl1 ddl2 cnt1 cnt2 zero]
  have "WriteTable ascii_lower escape ?d ''Users'' [] =
       (None,
        [Stmt ''LOCK TABLES `Users` READ'',
         Stmt ''FLUSH TABLES `Users`'',
         Write ''\<newline>--\<newline>-- Structure for table `Users`\<newline>--\<newline>\<newline>'',
         Write ''DROP TABLE IF EXISTS `Users`;\<newline>'',
         Stmt ''SHOW CREATE TABLE `Users`'',
         Write ''CREATE TABLE `Users` (`id` int, `Email` text);\<newline>'',
         Write ''\<newline>--\<newline>-- Data for table `Users`'',
         Stmt ''SELECT COUNT(*) FROM `Users` WHERE id > 100'',
         Write '' -- 0 rows\<newline>--\<newline>\<newline>''])"
    by (simp add: Users_ddl_def ascii_lower_def)
  with nofilter zero show ?thesis
    by blast
qed

text \<open>
  Claim C9. With the escaping of the spec for \<open>esc\<close>, the tuple that \<^verbatim>\<open>WriteTableData\<close>
  builds for a scanned row is \<^verbatim>\<open>( \<close>, the texts of the cells separated by a comma and a
  space, and \<^verbatim>\<open> )\<close>. The text of a null cell is \<^verbatim>\<open>NULL\<close> without quotes. The text of
  any other cell is a single quote, its bytes one by one, and a single quote, where a
  single-quote, a backslash, a NUL byte, a newline, a carriage return and a Ctrl-Z are
  replaced by a backslash followed by a single-quote, a backslash, \<^verbatim>\<open>0\<close>, \<^verbatim>\<open>n\<close>,
  \<^verbatim>\<open>r\<close> and \<^verbatim>\<open>Z\<close>, and every other byte stays as it is.
\<close>

theorem row_rendering:
  "WriteTableData_tuple escape cells =
     ''( '' @ separated '', ''
               (map (\<lambda>cell. case cell of
                        None \<Rightarrow> ''NULL''
                      | Some bytes \<Rightarrow>
                          [CHR 0x27]
                          @ concat (map (\<lambda>b. if b = CHR 0x27 then [CHR 0x5C, CHR 0x27]
                                            else if b = CHR 0x5C then [CHR 0x5C, CHR 0x5C]
                                            else if b = CHR 0x00 then [CHR 0x5C, CHR ''0'']
                                            else if b = CHR ''\<newline>'' then [CHR 0x5C, CHR ''n'']
                                            else if b = CHR 0x0D then [CHR 0x5C, CHR ''r'']
                                            else if b = CHR 0x1A then [CHR 0x5C, CHR ''Z'']
                                            else [b]) bytes)
                          @ [CHR 0x27]) cells)
           @ '' )''"
  by (simp only: WriteTableData_tuple_text escape_def escape_byte_cases)

text \<open>
  A row with a number, a null and a text that holds each of the six bytes.
\<close>

theorem row_rendering_witness:
  "WriteTableData_tuple escape
     [Some ''3'', None,
      Some (''o'' @ [CHR 0x27] @ ''k'' @ [CHR 0x5C, CHR 0x00, CHR ''\<newline>'', CHR 0x0D, CHR 0x1A] @ ''!'')] =
   ''( '' @ [CHR 0x27] @ ''3'' @ [CHR 0x27] @ '', NULL, ''
         @ [CHR 0x27] @ ''o'' @ [CHR 0x5C, CHR 0x27] @ ''k''
         @ [CHR 0x5C, CHR 0x5C] @ [CHR 0x5C, CHR ''0''] @ [CHR 0x5C, CHR ''n'']
         @ [CHR 0x5C, CHR ''r''] @ [CHR 0x5C, CHR ''Z''] @ ''!'' @ [CHR 0x27] @ '' )''"
  using row_rendering
          [of "[Some ''3'', None,
                Some (''o'' @ [CHR 0x27] @ ''k''
                      @ [CHR 0x5C, CHR 0x00, CHR ''\<newline>'', CHR 0x0D, CHR 0x1A] @ ''!'')]"]
  by simp

text \<open>
  Claim C10. When the DDL of the table cannot be fetched or scanned, \<^verbatim>\<open>WriteCreateTable\<close>
  returns the error, and the trace has the comment and the \<^verbatim>\<open>DROP TABLE IF EXISTS\<close>
  statement, written before the statement was sent.
\<close>

theorem WriteCreateTable_not_atomic:
  assumes "Scan_string2 (fst (QueryRow d (''SHOW CREATE TABLE `'' @ table @ ''`'') tr)) = Inl err"
  shows "WriteCreateTable d table tr =
           (Some err,
            tr @ [Write (''\<newline>--\<newline>-- Structure for table `'' @ table @ ''`\<newline>--\<newline>\<newline>''),
                  Write (''DROP TABLE IF EXISTS `'' @ table @ ''`;\<newline>''),
                  Stmt (''SHOW CREATE TABLE `'' @ table @ ''`'')])
         \<and> sink (snd (WriteCreateTable d table tr)) =
             sink tr @ ''\<newline>--\<newline>-- Structure for table `'' @ table @ ''`\<newline>--\<newline>\<newline>''
                     @ ''DROP TABLE IF EXISTS `'' @ table @ ''`;\<newline>''"
proof -
  have run: "WriteCreateTable d table tr =
           (Some err,
            tr @ [Write (''\<newline>--\<newline>-- Structure for table `'' @ table @ ''`\<newline>--\<newline>\<newline>''),
                  Write (''DROP TABLE IF EXISTS `'' @ table @ ''`;\<newline>''),
                  Stmt (''SHOW CREATE TABLE `'' @ table @ ''`'')])"
    using assms
    by (auto simp: WriteCreateTable_def QueryRow_def Query_def Fprintf_def Let_def
        split: sum.splits list.splits prod.splits option.splits)
  then show ?thesis
    by (simp add: sink_def)
qed

theorem WriteCreateTable_not_atomic_witness:
  "Scan_string2 (fst (QueryRow (NewMySQLDumper no_ddl_db) ''SHOW CREATE TABLE `Users`'' []))
     = Inl (DriverError ''gone away'')
   \<and> WriteCreateTable (NewMySQLDumper no_ddl_db) ''Users'' [] =
       (Some (DriverError ''gone away''),
        [Write ''\<newline>--\<newline>-- Structure for table `Users`\<newline>--\<newline>\<newline>'',
         Write ''DROP TABLE IF EXISTS `Users`;\<newline>'',
         Stmt ''SHOW CREATE TABLE `Users`''])
   \<and> sink (snd (WriteCreateTable (NewMySQLDumper no_ddl_db) ''Users'' [])) =
       ''\<newline>--\<newline>-- Structure for table `Users`\<newline>--\<newline>\<newline>DROP TABLE IF EXISTS `Users`;\<newline>''"
proof -
  have h: "Scan_string2 (fst (QueryRow (NewMySQLDumper no_ddl_db)
                                (''SHOW CREATE TABLE `'' @ ''Users'' @ ''`'') []))
             = Inl (DriverError ''gone away'')"
    by (simp add: QueryRow_def Query_def no_ddl_db_def db_defs)
  from WriteCreateTable_not_atomic [OF h] h show ?thesis
    by (simp add: sink_def)
qed

end
